theory Spec2Isabelle
  imports Main
begin

section \<open>JavaScript values and the operators the handlers apply to them\<close>

text \<open>
  The two screens of \<^verbatim>\<open>manage-departments/page.tsx\<close> handle values that come out of
  \<^verbatim>\<open>res.json()\<close>: whatever the server sent. They are modelled as they are at run time.
  An object holds its own properties in the order \<^verbatim>\<open>Object.keys\<close> enumerates them; its
  keys are pairwise different (a hypothesis wherever a theorem depends on it). Numbers
  are only ever tested for being zero, so an integer stands for them.
\<close>

datatype jsval =
    JUndefined
  | JNull
  | JBool bool
  | JNum int
  | JStr string
  | JArr "jsval list"
  | JObj "(string \<times> jsval) list"

text \<open>What a rejected promise or a \<^verbatim>\<open>throw\<close> carries.\<close>

datatype exn =
    FetchRejected  \<comment> \<open>\<^verbatim>\<open>fetch\<close> rejects: no response at all\<close>
  | ThrownError    \<comment> \<open>\<^verbatim>\<open>throw new Error()\<close>\<close>
  | SyntaxError    \<comment> \<open>\<^verbatim>\<open>res.json()\<close> rejects: the body is not JSON\<close>
  | TypeError      \<comment> \<open>property read on null or undefined, spread of a non-iterable\<close>

text \<open>The condition of \<^verbatim>\<open>if (v)\<close>, \<^verbatim>\<open>!v\<close> and \<^verbatim>\<open>v || w\<close>.\<close>

fun truthy :: "jsval \<Rightarrow> bool" where
  "truthy JUndefined = False"
| "truthy JNull = False"
| "truthy (JBool b) = b"
| "truthy (JNum n) = (n \<noteq> 0)"
| "truthy (JStr s) = (s \<noteq> [])"
| "truthy (JArr xs) = True"
| "truthy (JObj kvs) = True"

text \<open>
  \<^verbatim>\<open>v.k\<close> for the keys the source reads by name, \<^verbatim>\<open>data\<close> and \<^verbatim>\<open>message\<close>: neither is
  a built-in property of a string, a number, a boolean or an array, so only an object can
  hold one. Reading a property of null or undefined throws.
\<close>

fun get_member :: "string \<Rightarrow> jsval \<Rightarrow> exn + jsval" where
  "get_member k JUndefined = Inl TypeError"
| "get_member k JNull = Inl TypeError"
| "get_member k (JObj kvs) = Inr (case map_of kvs k of None \<Rightarrow> JUndefined | Some v \<Rightarrow> v)"
| "get_member k v = Inr JUndefined"

text \<open>\<^verbatim>\<open>v?.k\<close>: undefined where \<^verbatim>\<open>v.k\<close> would throw.\<close>

definition opt_member :: "string \<Rightarrow> jsval \<Rightarrow> jsval" where
  "opt_member k v = (case get_member k v of Inl e \<Rightarrow> JUndefined | Inr x \<Rightarrow> x)"

text \<open>\<^verbatim>\<open>a || b\<close>.\<close>

definition or_else :: "jsval \<Rightarrow> jsval \<Rightarrow> jsval" where
  "or_else a b = (if truthy a then a else b)"

text \<open>\<^verbatim>\<open>${x}\<close> in a template literal, for \<^verbatim>\<open>x : string | null\<close>.\<close>

definition template :: "string option \<Rightarrow> string" where
  "template x = (case x of None \<Rightarrow> ''null'' | Some v \<Rightarrow> v)"

section \<open>Requests, responses and what the user sees\<close>

datatype http_method = GET | POST | PATCH | DELETE

text \<open>The arguments of one \<^verbatim>\<open>fetch(url, init)\<close> call. The body is the value handed to
  \<^verbatim>\<open>JSON.stringify\<close>.\<close>

record request =
  meth :: http_method
  url :: string
  headers :: "(string \<times> string) list"
  credentials :: "string option"
  cache :: "string option"
  body :: "jsval option"

text \<open>
  What \<^verbatim>\<open>await fetch(...)\<close> gives: a rejection, or a response with its \<^verbatim>\<open>ok\<close> flag and
  what \<^verbatim>\<open>await res.json()\<close> will give (\<open>None\<close>: it rejects, the body does not parse).
\<close>

datatype fetch_result = NetworkFailure | Response bool "jsval option"

type_synonym server = "request \<Rightarrow> fetch_result"

type_synonym image_file = string

text \<open>Everything a handler does besides changing the component's state, in order.\<close>

datatype effect =
    Fetch request
  | Upload image_file
  | ToastSuccess jsval
  | ToastError jsval

text \<open>
  One run of a handler: the state it leaves, its effects, and the error its promise
  rejects with when nothing caught it (\<open>None\<close>: the handler returned).
\<close>

record 's run =
  final :: 's
  effects :: "effect list"
  rejection :: "exn option"

definition is_toast :: "effect \<Rightarrow> bool" where
  "is_toast e = (case e of ToastSuccess m \<Rightarrow> True | ToastError m \<Rightarrow> True | _ \<Rightarrow> False)"

definition get_request :: "string \<Rightarrow> request" where
  "get_request u =
     \<lparr>meth = GET, url = u, headers = [], credentials = None,
      cache = Some ''no-store'', body = None\<rparr>"

definition delete_request :: "string \<Rightarrow> request" where
  "delete_request u =
     \<lparr>meth = DELETE, url = u, headers = [], credentials = Some ''include'',
      cache = None, body = None\<rparr>"

text \<open>
  The first lines of the \<^verbatim>\<open>try\<close> block of every list fetch:
  \<^verbatim>\<open>res = await fetch(..); if (!res.ok) throw new Error(); data = await res.json(); data.data\<close>.
\<close>

definition read_collection :: "server \<Rightarrow> request \<Rightarrow> exn + jsval" where
  "read_collection srv rq =
     (case srv rq of
        NetworkFailure \<Rightarrow> Inl FetchRejected
      | Response ok b \<Rightarrow>
          if \<not> ok then Inl ThrownError
          else (case b of
                  None \<Rightarrow> Inl SyntaxError
                | Some data \<Rightarrow> get_member ''data'' data))"

section \<open>State of the two screens\<close>

record DepartmentForm =
  df_name :: string
  df_description :: "string option"

record Department =
  dept_id :: string
  dept_name :: string
  dept_description :: "string option"

record TeamMemberForm =
  tf_name :: string
  tf_designation :: string
  tf_about :: string
  tf_departmentId :: string

record TeamMember =
  member_id :: string
  member_name :: string
  member_designation :: string
  member_about :: string
  member_image :: "string option"
  member_departmentId :: "string option"

text \<open>The \<^verbatim>\<open>useState\<close> cells both components declare under the same names.\<close>

record list_state =
  departments :: jsval
  loading :: bool
  isDialogOpen :: bool
  isDeleteDialogOpen :: bool
  isEdit :: bool

record DepartmentList_state = list_state +
  currentDepartmentId :: "string option"
  departmentForm :: DepartmentForm

record TeamMemberList_state = list_state +
  teamMembers :: jsval
  currentMemberId :: "string option"
  memberForm :: TeamMemberForm
  memberImageLink :: "string option"
  isUploading :: bool

definition DepartmentList_init :: DepartmentList_state where
  "DepartmentList_init =
     \<lparr>departments = JArr [], loading = False, isDialogOpen = False,
      isDeleteDialogOpen = False, isEdit = False, currentDepartmentId = None,
      departmentForm = \<lparr>df_name = [], df_description = Some []\<rparr>\<rparr>"

definition TeamMemberList_init :: TeamMemberList_state where
  "TeamMemberList_init =
     \<lparr>departments = JArr [], loading = False, isDialogOpen = False,
      isDeleteDialogOpen = False, isEdit = False, teamMembers = JArr [],
      currentMemberId = None,
      memberForm = \<lparr>tf_name = [], tf_designation = [], tf_about = [], tf_departmentId = []\<rparr>,
      memberImageLink = None, isUploading = False\<rparr>"

section \<open>DepartmentList\<close>

text \<open>
  \<^verbatim>\<open>fetchDepartments\<close> (lines 66-81). \<open>base\<close> is what
  \<^verbatim>\<open>${process.env.NEXT_PUBLIC_API_BASE_URL}\<close> expands to. The \<^verbatim>\<open>catch\<close> takes every
  error, so the promise never rejects.
\<close>

definition DepartmentList_fetchDepartments ::
  "string \<Rightarrow> server \<Rightarrow> DepartmentList_state \<Rightarrow> DepartmentList_state run" where
  "DepartmentList_fetchDepartments base srv s =
     (let rq = get_request (base @ ''/department'');
          s1 = s\<lparr>loading := True\<rparr>
      in case read_collection srv rq of
           Inr d \<Rightarrow>
             \<lparr>final = s1\<lparr>departments := d, loading := False\<rparr>,
              effects = [Fetch rq], rejection = None\<rparr>
         | Inl e \<Rightarrow>
             \<lparr>final = s1\<lparr>loading := False\<rparr>,
              effects = [Fetch rq, ToastError (JStr ''Failed to load departments'')],
              rejection = None\<rparr>)"

definition DepartmentList_openCreateDialog :: "DepartmentList_state \<Rightarrow> DepartmentList_state" where
  "DepartmentList_openCreateDialog s =
     s\<lparr>isEdit := False, currentDepartmentId := None,
       departmentForm := \<lparr>df_name = [], df_description = Some []\<rparr>,
       isDialogOpen := True\<rparr>"

definition DepartmentList_openEditDialog ::
  "Department \<Rightarrow> DepartmentList_state \<Rightarrow> DepartmentList_state" where
  "DepartmentList_openEditDialog department s =
     s\<lparr>isEdit := True, currentDepartmentId := Some (dept_id department),
       departmentForm :=
         \<lparr>df_name = dept_name department,
          df_description =
            Some (case dept_description department of None \<Rightarrow> [] | Some d \<Rightarrow> d)\<rparr>,
       isDialogOpen := True\<rparr>"

text \<open>\<^verbatim>\<open>JSON.stringify(data)\<close> leaves out a property that is undefined.\<close>

definition DepartmentForm_json :: "DepartmentForm \<Rightarrow> jsval" where
  "DepartmentForm_json data =
     JObj ((''name'', JStr (df_name data)) #
           (case df_description data of
              None \<Rightarrow> []
            | Some d \<Rightarrow> [(''description'', JStr d)]))"

text \<open>The request \<^verbatim>\<open>onSubmit\<close> builds (lines 107-118).\<close>

definition DepartmentList_submit_request ::
  "string \<Rightarrow> DepartmentForm \<Rightarrow> DepartmentList_state \<Rightarrow> request" where
  "DepartmentList_submit_request base data s =
     \<lparr>meth = (if isEdit s then PATCH else POST),
      url = (if isEdit s
             then base @ ''/department/'' @ template (currentDepartmentId s)
             else base @ ''/department''),
      headers = [(''Content-Type'', ''application/json'')],
      credentials = Some ''include'',
      cache = None,
      body = Some (DepartmentForm_json data)\<rparr>"

text \<open>
  \<^verbatim>\<open>onSubmit\<close> (lines 106-131). Nothing catches a rejection of \<^verbatim>\<open>fetch\<close> or of
  \<^verbatim>\<open>res.json()\<close>, which is awaited before \<^verbatim>\<open>res.ok\<close> is looked at. The call of
  \<^verbatim>\<open>fetchDepartments()\<close> is the handler's last statement; it is run here to its end.
\<close>

definition DepartmentList_onSubmit ::
  "string \<Rightarrow> server \<Rightarrow> DepartmentForm \<Rightarrow> DepartmentList_state \<Rightarrow> DepartmentList_state run" where
  "DepartmentList_onSubmit base srv data s =
     (let rq = DepartmentList_submit_request base data s
      in case srv rq of
           NetworkFailure \<Rightarrow> \<lparr>final = s, effects = [Fetch rq], rejection = Some FetchRejected\<rparr>
         | Response ok b \<Rightarrow>
             (case b of
                None \<Rightarrow> \<lparr>final = s, effects = [Fetch rq], rejection = Some SyntaxError\<rparr>
              | Some resJson \<Rightarrow>
                  if ok then
                    (let r = DepartmentList_fetchDepartments base srv (s\<lparr>isDialogOpen := False\<rparr>)
                     in \<lparr>final = final r,
                         effects =
                           [Fetch rq,
                            ToastSuccess (JStr (if isEdit s
                                                then ''Department updated successfully''
                                                else ''Department added successfully''))]
                           @ effects r,
                         rejection = None\<rparr>)
                  else
                    \<lparr>final = s,
                     effects =
                       [Fetch rq,
                        ToastError (or_else (opt_member ''message'' resJson)
                                            (JStr ''Something went wrong''))],
                     rejection = None\<rparr>))"

text \<open>\<^verbatim>\<open>deleteDepartment\<close> (lines 133-150).\<close>

definition deleteDepartment ::
  "string \<Rightarrow> server \<Rightarrow> string \<Rightarrow> DepartmentList_state \<Rightarrow> DepartmentList_state run" where
  "deleteDepartment base srv ident s =
     (let rq = delete_request (base @ ''/department/'' @ ident)
      in case srv rq of
           NetworkFailure \<Rightarrow> \<lparr>final = s, effects = [Fetch rq], rejection = Some FetchRejected\<rparr>
         | Response ok b \<Rightarrow>
             (case b of
                None \<Rightarrow> \<lparr>final = s, effects = [Fetch rq], rejection = Some SyntaxError\<rparr>
              | Some data \<Rightarrow>
                  if ok then
                    (let r = DepartmentList_fetchDepartments base srv s
                     in \<lparr>final = final r,
                         effects =
                           [Fetch rq,
                            ToastSuccess (or_else (opt_member ''message'' data)
                                                  (JStr ''Department deleted!''))]
                           @ effects r,
                         rejection = None\<rparr>)
                  else
                    \<lparr>final = s,
                     effects =
                       [Fetch rq,
                        ToastError (or_else (opt_member ''message'' data)
                                            (JStr ''Delete failed''))],
                     rejection = None\<rparr>))"

text \<open>The trash button of a row (lines 215-218).\<close>

definition DepartmentList_row_delete_onClick ::
  "string \<Rightarrow> DepartmentList_state \<Rightarrow> DepartmentList_state" where
  "DepartmentList_row_delete_onClick ident s =
     s\<lparr>currentDepartmentId := Some ident, isDeleteDialogOpen := True\<rparr>"

text \<open>The Cancel button of the delete dialog (line 277).\<close>

definition DepartmentList_delete_Cancel_onClick ::
  "DepartmentList_state \<Rightarrow> DepartmentList_state run" where
  "DepartmentList_delete_Cancel_onClick s =
     \<lparr>final = s\<lparr>isDeleteDialogOpen := False\<rparr>, effects = [], rejection = None\<rparr>"

text \<open>
  The Delete button of the delete dialog (lines 280-283). \<^verbatim>\<open>if (currentDepartmentId)\<close>
  fails for null and for the empty string. \<^verbatim>\<open>deleteDepartment\<close> is called and not
  awaited, then the dialog is closed; the two write different cells of the state, so the
  order in which they finish does not show in the final state.
\<close>

definition DepartmentList_delete_Delete_onClick ::
  "string \<Rightarrow> server \<Rightarrow> DepartmentList_state \<Rightarrow> DepartmentList_state run" where
  "DepartmentList_delete_Delete_onClick base srv s =
     (let r = (case currentDepartmentId s of
                 None \<Rightarrow> \<lparr>final = s, effects = [], rejection = None\<rparr>
               | Some ident \<Rightarrow>
                   if ident \<noteq> [] then deleteDepartment base srv ident s
                   else \<lparr>final = s, effects = [], rejection = None\<rparr>)
      in r\<lparr>final := (final r)\<lparr>isDeleteDialogOpen := False\<rparr>\<rparr>)"

section \<open>TeamMemberList\<close>

text \<open>\<^verbatim>\<open>fetchDepartments\<close> of the second component (lines 392-404): no loading flag.\<close>

definition TeamMemberList_fetchDepartments ::
  "string \<Rightarrow> server \<Rightarrow> TeamMemberList_state \<Rightarrow> TeamMemberList_state run" where
  "TeamMemberList_fetchDepartments base srv s =
     (let rq = get_request (base @ ''/department'')
      in case read_collection srv rq of
           Inr d \<Rightarrow> \<lparr>final = s\<lparr>departments := d\<rparr>, effects = [Fetch rq], rejection = None\<rparr>
         | Inl e \<Rightarrow>
             \<lparr>final = s,
              effects = [Fetch rq, ToastError (JStr ''Failed to load departments'')],
              rejection = None\<rparr>)"

text \<open>
  A key as \<^verbatim>\<open>Object.keys\<close> returns it: the name of an object's property, or the index
  of an array element or of a character of a string (the string of its decimal digits).
\<close>

datatype key = Index nat | Name string

text \<open>\<^verbatim>\<open>Object.keys(v)\<close>: throws on null and undefined; a number or a boolean has no
  own enumerable property.\<close>

fun object_keys :: "jsval \<Rightarrow> exn + key list" where
  "object_keys JUndefined = Inl TypeError"
| "object_keys JNull = Inl TypeError"
| "object_keys (JStr s) = Inr (map Index [0..<length s])"
| "object_keys (JArr xs) = Inr (map Index [0..<length xs])"
| "object_keys (JObj kvs) = Inr (map (\<lambda>kv. Name (fst kv)) kvs)"
| "object_keys v = Inr []"

text \<open>\<^verbatim>\<open>v[k]\<close> for a key \<^verbatim>\<open>k\<close> of \<^verbatim>\<open>Object.keys(v)\<close>.\<close>

fun element :: "jsval \<Rightarrow> key \<Rightarrow> jsval" where
  "element (JObj kvs) (Name k) = (case map_of kvs k of None \<Rightarrow> JUndefined | Some v \<Rightarrow> v)"
| "element (JArr xs) (Index i) = (if i < length xs then xs ! i else JUndefined)"
| "element (JStr s) (Index i) = (if i < length s then JStr [s ! i] else JUndefined)"
| "element v k = JUndefined"

text \<open>\<^verbatim>\<open>...v\<close> in an argument list: the elements of an array, the characters of a string;
  anything else is not iterable.\<close>

fun spread :: "jsval \<Rightarrow> exn + jsval list" where
  "spread (JArr xs) = Inr xs"
| "spread (JStr s) = Inr (map (\<lambda>c. JStr [c]) s)"
| "spread v = Inl TypeError"

text \<open>
  The loop \<^verbatim>\<open>Object.keys(grouped).forEach((deptId) => flatArray.push(...grouped[deptId]))\<close>
  (lines 421-423) over the keys still to visit, \<open>flatArray\<close> being what was pushed so
  far. A throw leaves the loop.
\<close>

fun push_groups :: "jsval \<Rightarrow> key list \<Rightarrow> jsval list \<Rightarrow> exn + jsval list" where
  "push_groups grouped [] flatArray = Inr flatArray"
| "push_groups grouped (deptId # rest) flatArray =
     (case spread (element grouped deptId) of
        Inl e \<Rightarrow> Inl e
      | Inr members \<Rightarrow> push_groups grouped rest (flatArray @ members))"

text \<open>Lines 418-423: from \<^verbatim>\<open>grouped\<close> to the finished \<^verbatim>\<open>flatArray\<close>.\<close>

definition flatten_grouped :: "jsval \<Rightarrow> exn + jsval list" where
  "flatten_grouped grouped =
     (case object_keys grouped of
        Inl e \<Rightarrow> Inl e
      | Inr ks \<Rightarrow> push_groups grouped ks [])"

text \<open>\<^verbatim>\<open>fetchTeamMembers\<close> (lines 407-431).\<close>

definition fetchTeamMembers ::
  "string \<Rightarrow> server \<Rightarrow> TeamMemberList_state \<Rightarrow> TeamMemberList_state run" where
  "fetchTeamMembers base srv s =
     (let rq = get_request (base @ ''/team'');
          s1 = s\<lparr>loading := True\<rparr>
      in case (case read_collection srv rq of
                 Inl e \<Rightarrow> Inl e
               | Inr grouped \<Rightarrow> flatten_grouped grouped) of
           Inr flatArray \<Rightarrow>
             \<lparr>final = s1\<lparr>teamMembers := JArr flatArray, loading := False\<rparr>,
              effects = [Fetch rq], rejection = None\<rparr>
         | Inl e \<Rightarrow>
             \<lparr>final = s1\<lparr>loading := False\<rparr>,
              effects = [Fetch rq, ToastError (JStr ''Failed to load team members'')],
              rejection = None\<rparr>)"

definition TeamMemberList_openCreateDialog :: "TeamMemberList_state \<Rightarrow> TeamMemberList_state" where
  "TeamMemberList_openCreateDialog s =
     s\<lparr>isEdit := False, currentMemberId := None,
       memberForm := \<lparr>tf_name = [], tf_designation = [], tf_about = [], tf_departmentId = []\<rparr>,
       memberImageLink := None,
       isDialogOpen := True\<rparr>"

text \<open>\<^verbatim>\<open>openEditDialog\<close> (lines 452-463): \<^verbatim>\<open>member.departmentId || ""\<close>,
  \<^verbatim>\<open>member.image ?? null\<close>.\<close>

definition TeamMemberList_openEditDialog ::
  "TeamMember \<Rightarrow> TeamMemberList_state \<Rightarrow> TeamMemberList_state" where
  "TeamMemberList_openEditDialog member s =
     s\<lparr>isEdit := True, currentMemberId := Some (member_id member),
       memberForm :=
         \<lparr>tf_name = member_name member,
          tf_designation = member_designation member,
          tf_about = member_about member,
          tf_departmentId = (case member_departmentId member of None \<Rightarrow> [] | Some d \<Rightarrow> d)\<rparr>,
       memberImageLink := member_image member,
       isDialogOpen := True\<rparr>"

text \<open>
  \<^verbatim>\<open>handleImageChange\<close> (lines 465-479) in its two halves: up to the \<^verbatim>\<open>await\<close>, and
  from the upload's outcome on (\<open>Inl\<close>: \<^verbatim>\<open>uploadImageToCloudflare\<close> threw). The state
  between the two is the one the component renders while the upload runs.
\<close>

definition handleImageChange_begin :: "TeamMemberList_state \<Rightarrow> TeamMemberList_state" where
  "handleImageChange_begin s = s\<lparr>isUploading := True, memberImageLink := None\<rparr>"

definition handleImageChange_end ::
  "exn + string \<Rightarrow> TeamMemberList_state \<Rightarrow> TeamMemberList_state \<times> effect list" where
  "handleImageChange_end outcome s =
     (case outcome of
        Inr imageUrl \<Rightarrow>
          (s\<lparr>memberImageLink := Some imageUrl, isUploading := False\<rparr>,
           [ToastSuccess (JStr ''Image uploaded successfully'')])
      | Inl e \<Rightarrow>
          (s\<lparr>isUploading := False\<rparr>, [ToastError (JStr ''Image upload failed'')]))"

definition handleImageChange ::
  "(image_file \<Rightarrow> exn + string) \<Rightarrow> image_file option \<Rightarrow> TeamMemberList_state
     \<Rightarrow> TeamMemberList_state run" where
  "handleImageChange uploadImageToCloudflare f s =
     (case f of
        None \<Rightarrow> \<lparr>final = s, effects = [], rejection = None\<rparr>
      | Some img \<Rightarrow>
          (let (s2, es) = handleImageChange_end (uploadImageToCloudflare img)
                            (handleImageChange_begin s)
           in \<lparr>final = s2, effects = Upload img # es, rejection = None\<rparr>))"

text \<open>
  Lines 488-489: \<^verbatim>\<open>payload = { ...data }; if (memberImageLink) payload.image = memberImageLink\<close>.
  The form has the four fields of \<^verbatim>\<open>TeamMemberForm\<close>; the assignment adds the key last.
\<close>

definition TeamMemberList_payload :: "TeamMemberForm \<Rightarrow> string option \<Rightarrow> (string \<times> jsval) list" where
  "TeamMemberList_payload data link =
     [(''name'', JStr (tf_name data)),
      (''designation'', JStr (tf_designation data)),
      (''about'', JStr (tf_about data)),
      (''departmentId'', JStr (tf_departmentId data))]
     @ (case link of
          None \<Rightarrow> []
        | Some l \<Rightarrow> if l \<noteq> [] then [(''image'', JStr l)] else [])"

text \<open>The request \<^verbatim>\<open>onSubmit\<close> builds (lines 482-496).\<close>

definition TeamMemberList_submit_request ::
  "string \<Rightarrow> TeamMemberForm \<Rightarrow> TeamMemberList_state \<Rightarrow> request" where
  "TeamMemberList_submit_request base data s =
     \<lparr>meth = (if isEdit s then PATCH else POST),
      url = (if isEdit s
             then base @ ''/team/'' @ template (currentMemberId s)
             else base @ ''/team''),
      headers = [(''Content-Type'', ''application/json'')],
      credentials = Some ''include'',
      cache = None,
      body = Some (JObj (TeamMemberList_payload data (memberImageLink s)))\<rparr>"

text \<open>\<^verbatim>\<open>onSubmit\<close> (lines 481-509).\<close>

definition TeamMemberList_onSubmit ::
  "string \<Rightarrow> server \<Rightarrow> TeamMemberForm \<Rightarrow> TeamMemberList_state \<Rightarrow> TeamMemberList_state run" where
  "TeamMemberList_onSubmit base srv data s =
     (let rq = TeamMemberList_submit_request base data s
      in case srv rq of
           NetworkFailure \<Rightarrow> \<lparr>final = s, effects = [Fetch rq], rejection = Some FetchRejected\<rparr>
         | Response ok b \<Rightarrow>
             (case b of
                None \<Rightarrow> \<lparr>final = s, effects = [Fetch rq], rejection = Some SyntaxError\<rparr>
              | Some resJson \<Rightarrow>
                  if ok then
                    (let r = fetchTeamMembers base srv (s\<lparr>isDialogOpen := False\<rparr>)
                     in \<lparr>final = final r,
                         effects =
                           [Fetch rq,
                            ToastSuccess (JStr (if isEdit s
                                                then ''Team member updated successfully''
                                                else ''Team member added successfully''))]
                           @ effects r,
                         rejection = None\<rparr>)
                  else
                    \<lparr>final = s,
                     effects =
                       [Fetch rq,
                        ToastError (or_else (opt_member ''message'' resJson)
                                            (JStr ''Something went wrong''))],
                     rejection = None\<rparr>))"

text \<open>\<^verbatim>\<open>deleteTeamMember\<close> (lines 511-528).\<close>

definition deleteTeamMember ::
  "string \<Rightarrow> server \<Rightarrow> string \<Rightarrow> TeamMemberList_state \<Rightarrow> TeamMemberList_state run" where
  "deleteTeamMember base srv ident s =
     (let rq = delete_request (base @ ''/team/'' @ ident)
      in case srv rq of
           NetworkFailure \<Rightarrow> \<lparr>final = s, effects = [Fetch rq], rejection = Some FetchRejected\<rparr>
         | Response ok b \<Rightarrow>
             (case b of
                None \<Rightarrow> \<lparr>final = s, effects = [Fetch rq], rejection = Some SyntaxError\<rparr>
              | Some data \<Rightarrow>
                  if ok then
                    (let r = fetchTeamMembers base srv s
                     in \<lparr>final = final r,
                         effects =
                           [Fetch rq,
                            ToastSuccess (or_else (opt_member ''message'' data)
                                                  (JStr ''Team member deleted!''))]
                           @ effects r,
                         rejection = None\<rparr>)
                  else
                    \<lparr>final = s,
                     effects =
                       [Fetch rq,
                        ToastError (or_else (opt_member ''message'' data)
                                            (JStr ''Delete failed''))],
                     rejection = None\<rparr>))"

text \<open>The trash button of a row (lines 617-620).\<close>

definition TeamMemberList_row_delete_onClick ::
  "string \<Rightarrow> TeamMemberList_state \<Rightarrow> TeamMemberList_state" where
  "TeamMemberList_row_delete_onClick ident s =
     s\<lparr>currentMemberId := Some ident, isDeleteDialogOpen := True\<rparr>"

text \<open>The Cancel button of the delete dialog (line 727).\<close>

definition TeamMemberList_delete_Cancel_onClick ::
  "TeamMemberList_state \<Rightarrow> TeamMemberList_state run" where
  "TeamMemberList_delete_Cancel_onClick s =
     \<lparr>final = s\<lparr>isDeleteDialogOpen := False\<rparr>, effects = [], rejection = None\<rparr>"

text \<open>The Delete button of the delete dialog (lines 730-733).\<close>

definition TeamMemberList_delete_Delete_onClick ::
  "string \<Rightarrow> server \<Rightarrow> TeamMemberList_state \<Rightarrow> TeamMemberList_state run" where
  "TeamMemberList_delete_Delete_onClick base srv s =
     (let r = (case currentMemberId s of
                 None \<Rightarrow> \<lparr>final = s, effects = [], rejection = None\<rparr>
               | Some ident \<Rightarrow>
                   if ident \<noteq> [] then deleteTeamMember base srv ident s
                   else \<lparr>final = s, effects = [], rejection = None\<rparr>)
      in r\<lparr>final := (final r)\<lparr>isDeleteDialogOpen := False\<rparr>\<rparr>)"

text \<open>
  What the add/edit dialog renders from the state (lines 651-713): the preview image, the
  file input, the uploading notice and the submit button with its \<^verbatim>\<open>disabled\<close> attribute.
\<close>

record form_view =
  preview_shown :: bool
  file_input_disabled :: bool
  uploading_notice :: bool
  submit_disabled :: bool
  submit_label :: string

definition TeamMemberList_form_view :: "TeamMemberList_state \<Rightarrow> form_view" where
  "TeamMemberList_form_view s =
     \<lparr>preview_shown = (case memberImageLink s of None \<Rightarrow> False | Some l \<Rightarrow> l \<noteq> []),
      file_input_disabled = isUploading s,
      uploading_notice = isUploading s,
      submit_disabled = isUploading s,
      submit_label = (if isEdit s then ''Update'' else ''Add'')\<rparr>"

text \<open>
  The user activates the submit button of the rendered form. The browser does nothing for a
  disabled button, and does not submit while a \<^verbatim>\<open>required\<close> input (name, designation,
  about) is empty; otherwise \<^verbatim>\<open>handleSubmit(onSubmit)\<close> runs \<^verbatim>\<open>onSubmit\<close> on the
  form's values.
\<close>

definition TeamMemberList_submit_click ::
  "string \<Rightarrow> server \<Rightarrow> TeamMemberList_state \<Rightarrow> TeamMemberList_state run" where
  "TeamMemberList_submit_click base srv s =
     (if submit_disabled (TeamMemberList_form_view s) then
        \<lparr>final = s, effects = [], rejection = None\<rparr>
      else if tf_name (memberForm s) = [] \<or> tf_designation (memberForm s) = []
              \<or> tf_about (memberForm s) = [] then
        \<lparr>final = s, effects = [], rejection = None\<rparr>
      else TeamMemberList_onSubmit base srv (memberForm s) s)"

section \<open>quillModules.ts\<close>

text \<open>
  The editor the handlers act on belongs to the Quill library, outside this repository.
  It is modelled by what the two methods called here are given: the text handed to
  \<^verbatim>\<open>setText\<close>, the range handed to \<^verbatim>\<open>setSelection\<close>, and the calls in order. (Quill
  itself ends every document with a line break; that break is not part of the text
  \<^verbatim>\<open>setText\<close> is given and is not modelled.)
\<close>

datatype editor_call = SetText string | SetSelection nat nat

record editor =
  contents :: string
  selection :: "(nat \<times> nat) option"
  calls :: "editor_call list"

definition setText :: "string \<Rightarrow> editor \<Rightarrow> editor" where
  "setText t e = e\<lparr>contents := t, calls := calls e @ [SetText t]\<rparr>"

definition setSelection :: "nat \<Rightarrow> nat \<Rightarrow> editor \<Rightarrow> editor" where
  "setSelection i n e = e\<lparr>selection := Some (i, n), calls := calls e @ [SetSelection i n]\<rparr>"

text \<open>\<^verbatim>\<open>quillRef\<close>: null or undefined itself, or a ref whose \<^verbatim>\<open>current\<close> is null until the
  editor component is mounted.\<close>

datatype quill_ref = NoRef | Ref "editor option"

text \<open>The \<^verbatim>\<open>clear\<close> handler (lines 22-27), returning the ref with the editor as it leaves
  it.\<close>

definition clear_handler :: "quill_ref \<Rightarrow> quill_ref" where
  "clear_handler quillRef =
     (case quillRef of
        NoRef \<Rightarrow> NoRef
      | Ref current \<Rightarrow>
          (case current of
             None \<Rightarrow> Ref None
           | Some e \<Rightarrow> Ref (Some (setSelection 0 0 (setText [] e)))))"

section \<open>Reading a run\<close>

text \<open>The requests among the effects of a run, in order, and those of them that are not
  a \<^verbatim>\<open>GET\<close>.\<close>

fun requests :: "effect list \<Rightarrow> request list" where
  "requests [] = []"
| "requests (Fetch rq # es) = rq # requests es"
| "requests (e # es) = requests es"

definition mutating_requests :: "effect list \<Rightarrow> request list" where
  "mutating_requests es = filter (\<lambda>rq. meth rq \<noteq> GET) (requests es)"

text \<open>The notifications among the effects of a run.\<close>

definition toasts :: "effect list \<Rightarrow> effect list" where
  "toasts es = filter is_toast es"

text \<open>A list fetch fails: \<^verbatim>\<open>fetch\<close> rejects, the status is not OK, or the body does not
  parse.\<close>

definition fetch_fails :: "fetch_result \<Rightarrow> bool" where
  "fetch_fails r = (case r of NetworkFailure \<Rightarrow> True | Response ok b \<Rightarrow> \<not> ok \<or> b = None)"

text \<open>The grouped response of \<^verbatim>\<open>GET /team\<close> as the server means it: for each department
  identifier, in the order \<^verbatim>\<open>Object.keys\<close> lists them, the array of its members.\<close>

definition grouped_response :: "(string \<times> jsval list) list \<Rightarrow> jsval" where
  "grouped_response groups = JObj (map (\<lambda>g. (fst g, JArr (snd g))) groups)"

section \<open>Example states and servers\<close>

definition api :: string where
  "api = ''https://api.example''"

text \<open>The department screen with the delete dialog open on department 3.\<close>

definition dept_delete_pending :: DepartmentList_state where
  "dept_delete_pending = DepartmentList_row_delete_onClick ''3'' DepartmentList_init"

text \<open>The team screen with the delete dialog open on member 7.\<close>

definition team_delete_pending :: TeamMemberList_state where
  "team_delete_pending = TeamMemberList_row_delete_onClick ''7'' TeamMemberList_init"

text \<open>The delete dialogs open with no identifier recorded.\<close>

definition dept_delete_no_target :: DepartmentList_state where
  "dept_delete_no_target = DepartmentList_init\<lparr>isDeleteDialogOpen := True\<rparr>"

definition team_delete_no_target :: TeamMemberList_state where
  "team_delete_no_target = TeamMemberList_init\<lparr>isDeleteDialogOpen := True\<rparr>"

text \<open>A server out of reach: every \<^verbatim>\<open>fetch\<close> rejects.\<close>

definition unreachable :: server where
  "unreachable rq = NetworkFailure"

text \<open>The values a user has entered into the team-member form.\<close>

definition member_form_filled :: TeamMemberForm where
  "member_form_filled =
     \<lparr>tf_name = ''Asha'', tf_designation = ''Guide'', tf_about = ''Leads treks'',
      tf_departmentId = ''2''\<rparr>"

text \<open>The create dialog of the team screen, filled in, with and without an uploaded
  image, and while an upload runs.\<close>

definition team_creating :: TeamMemberList_state where
  "team_creating =
     (TeamMemberList_openCreateDialog TeamMemberList_init)\<lparr>memberForm := member_form_filled\<rparr>"

definition team_creating_with_image :: TeamMemberList_state where
  "team_creating_with_image =
     fst (handleImageChange_end (Inr ''team/asha.png'') (handleImageChange_begin team_creating))"

definition team_uploading :: TeamMemberList_state where
  "team_uploading = handleImageChange_begin team_creating"

text \<open>A department row and a member row, and the dialogs opened from them or from the
  add buttons.\<close>

definition engineering :: Department where
  "engineering = \<lparr>dept_id = ''3'', dept_name = ''Engineering'', dept_description = None\<rparr>"

definition asha :: TeamMember where
  "asha =
     \<lparr>member_id = ''7'', member_name = ''Asha'', member_designation = ''Guide'',
      member_about = ''Leads treks'', member_image = None, member_departmentId = Some ''3''\<rparr>"

definition dept_creating :: DepartmentList_state where
  "dept_creating = DepartmentList_openCreateDialog DepartmentList_init"

definition dept_editing :: DepartmentList_state where
  "dept_editing = DepartmentList_openEditDialog engineering DepartmentList_init"

definition team_editing :: TeamMemberList_state where
  "team_editing = TeamMemberList_openEditDialog asha TeamMemberList_init"

text \<open>Both screens with a list on display, a server that answers every request with
  status 500 and a JSON error body, and one that answers with status 200 and a body that
  is not JSON.\<close>

definition one_department :: jsval where
  "one_department = JArr [JObj [(''id'', JStr ''1''), (''name'', JStr ''Engineering'')]]"

definition one_member :: jsval where
  "one_member = JArr [JObj [(''id'', JStr ''7''), (''name'', JStr ''Asha'')]]"

definition dept_listed :: DepartmentList_state where
  "dept_listed = DepartmentList_init\<lparr>departments := one_department\<rparr>"

definition team_listed :: TeamMemberList_state where
  "team_listed = TeamMemberList_init\<lparr>departments := one_department, teamMembers := one_member\<rparr>"

definition server_error :: server where
  "server_error rq = Response False (Some (JObj [(''message'', JStr ''Internal error'')]))"

definition garbled :: server where
  "garbled rq = Response True None"

text \<open>Three members in two departments, and a server that answers \<^verbatim>\<open>GET /team\<close> with
  them.\<close>

definition member_a :: jsval where
  "member_a = JObj [(''id'', JStr ''7''), (''name'', JStr ''Asha'')]"

definition member_b :: jsval where
  "member_b = JObj [(''id'', JStr ''8''), (''name'', JStr ''Bikram'')]"

definition member_c :: jsval where
  "member_c = JObj [(''id'', JStr ''9''), (''name'', JStr ''Chandra'')]"

definition two_groups :: "(string \<times> jsval list) list" where
  "two_groups = [(''2'', [member_a, member_b]), (''5'', [member_c])]"

definition team_reply :: jsval where
  "team_reply = JObj [(''data'', grouped_response two_groups)]"

definition team_server :: server where
  "team_server rq = Response True (Some team_reply)"

text \<open>A server that answers a \<^verbatim>\<open>DELETE\<close> with status 200 and a message, and any other
  request with status 200 and an empty list.\<close>

definition deleting_server :: server where
  "deleting_server rq =
     (if meth rq = DELETE
      then Response True (Some (JObj [(''message'', JStr ''Department removed'')]))
      else Response True (Some (JObj [(''data'', JArr [])])))"

text \<open>A server that answers every request with status 502 and a body that is not JSON.\<close>

definition bad_gateway :: server where
  "bad_gateway rq = Response False None"

section \<open>The delete dialog\<close>

text \<open>
  C10. Confirming the delete dialog while no identifier is recorded issues no request and
  has no other effect; the dialog closes and nothing else of the state changes. The same
  holds on both screens, whatever the server would answer.
\<close>

theorem confirm_without_target:
  assumes "currentDepartmentId s = None" and "currentMemberId t = None"
  shows "DepartmentList_delete_Delete_onClick base srv s =
           \<lparr>final = s\<lparr>isDeleteDialogOpen := False\<rparr>, effects = [], rejection = None\<rparr>
       \<and> TeamMemberList_delete_Delete_onClick base srv t =
           \<lparr>final = t\<lparr>isDeleteDialogOpen := False\<rparr>, effects = [], rejection = None\<rparr>"
  using assms
  by (simp add: DepartmentList_delete_Delete_onClick_def
      TeamMemberList_delete_Delete_onClick_def)

theorem confirm_without_target_witness:
  "currentDepartmentId dept_delete_no_target = None
 \<and> currentMemberId team_delete_no_target = None
 \<and> isDeleteDialogOpen dept_delete_no_target
 \<and> isDeleteDialogOpen team_delete_no_target
 \<and> effects (DepartmentList_delete_Delete_onClick api unreachable dept_delete_no_target) = []
 \<and> \<not> isDeleteDialogOpen
       (final (DepartmentList_delete_Delete_onClick api unreachable dept_delete_no_target))
 \<and> effects (TeamMemberList_delete_Delete_onClick api unreachable team_delete_no_target) = []
 \<and> \<not> isDeleteDialogOpen
       (final (TeamMemberList_delete_Delete_onClick api unreachable team_delete_no_target))"
proof -
  have d: "currentDepartmentId dept_delete_no_target = None"
    by (simp add: dept_delete_no_target_def DepartmentList_init_def)
  have m: "currentMemberId team_delete_no_target = None"
    by (simp add: team_delete_no_target_def TeamMemberList_init_def)
  have od: "isDeleteDialogOpen dept_delete_no_target"
    by (simp add: dept_delete_no_target_def)
  have om: "isDeleteDialogOpen team_delete_no_target"
    by (simp add: team_delete_no_target_def)
  note run = confirm_without_target [OF d m, of api unreachable]
  from run d m od om show ?thesis by simp
qed

text \<open>
  C3. With the delete dialog open on a recorded identifier, the Cancel button issues no
  request, has no other effect and closes the dialog. It writes no other cell of the
  state: the recorded identifier stays as it was. The same holds on both screens.
\<close>

theorem cancel_delete_keeps_target:
  assumes "isDeleteDialogOpen s" and "currentDepartmentId s = Some d"
      and "isDeleteDialogOpen t" and "currentMemberId t = Some m"
  shows "requests (effects (DepartmentList_delete_Cancel_onClick s)) = []
       \<and> effects (DepartmentList_delete_Cancel_onClick s) = []
       \<and> rejection (DepartmentList_delete_Cancel_onClick s) = None
       \<and> final (DepartmentList_delete_Cancel_onClick s) = s\<lparr>isDeleteDialogOpen := False\<rparr>
       \<and> currentDepartmentId (final (DepartmentList_delete_Cancel_onClick s)) = Some d
       \<and> requests (effects (TeamMemberList_delete_Cancel_onClick t)) = []
       \<and> effects (TeamMemberList_delete_Cancel_onClick t) = []
       \<and> rejection (TeamMemberList_delete_Cancel_onClick t) = None
       \<and> final (TeamMemberList_delete_Cancel_onClick t) = t\<lparr>isDeleteDialogOpen := False\<rparr>
       \<and> currentMemberId (final (TeamMemberList_delete_Cancel_onClick t)) = Some m"
  using assms
  by (simp add: DepartmentList_delete_Cancel_onClick_def
      TeamMemberList_delete_Cancel_onClick_def)

theorem cancel_delete_keeps_target_witness:
  "isDeleteDialogOpen dept_delete_pending
 \<and> currentDepartmentId dept_delete_pending = Some ''3''
 \<and> isDeleteDialogOpen team_delete_pending
 \<and> currentMemberId team_delete_pending = Some ''7''
 \<and> effects (DepartmentList_delete_Cancel_onClick dept_delete_pending) = []
 \<and> \<not> isDeleteDialogOpen (final (DepartmentList_delete_Cancel_onClick dept_delete_pending))
 \<and> currentDepartmentId (final (DepartmentList_delete_Cancel_onClick dept_delete_pending))
     = Some ''3''
 \<and> effects (TeamMemberList_delete_Cancel_onClick team_delete_pending) = []
 \<and> \<not> isDeleteDialogOpen (final (TeamMemberList_delete_Cancel_onClick team_delete_pending))
 \<and> currentMemberId (final (TeamMemberList_delete_Cancel_onClick team_delete_pending))
     = Some ''7''"
proof -
  have od: "isDeleteDialogOpen dept_delete_pending"
    and d: "currentDepartmentId dept_delete_pending = Some ''3''"
    by (simp_all add: dept_delete_pending_def DepartmentList_row_delete_onClick_def)
  have om: "isDeleteDialogOpen team_delete_pending"
    and m: "currentMemberId team_delete_pending = Some ''7''"
    by (simp_all add: team_delete_pending_def TeamMemberList_row_delete_onClick_def)
  note run = cancel_delete_keeps_target [OF od d om m]
  from run od d om m show ?thesis by simp
qed

text \<open>
  The claim that Cancel discards the recorded identifier fails: after the trash button of
  department 3 (of member 7) and Cancel, the identifier is still recorded.
\<close>

theorem cancel_delete_discards_target_counterexample:
  "isDeleteDialogOpen dept_delete_pending
 \<and> currentDepartmentId dept_delete_pending = Some ''3''
 \<and> currentDepartmentId (final (DepartmentList_delete_Cancel_onClick dept_delete_pending))
     \<noteq> None
 \<and> isDeleteDialogOpen team_delete_pending
 \<and> currentMemberId team_delete_pending = Some ''7''
 \<and> currentMemberId (final (TeamMemberList_delete_Cancel_onClick team_delete_pending))
     \<noteq> None"
  by (simp add: dept_delete_pending_def DepartmentList_row_delete_onClick_def
      DepartmentList_delete_Cancel_onClick_def team_delete_pending_def
      TeamMemberList_row_delete_onClick_def TeamMemberList_delete_Cancel_onClick_def)

section \<open>The clear button of the editor toolbar\<close>

text \<open>
  C9. On a live editor (a ref whose \<^verbatim>\<open>current\<close> is set) the clear handler calls
  \<^verbatim>\<open>setText('')\<close> and then \<^verbatim>\<open>setSelection(0, 0)\<close>, and nothing else: whatever the
  document held before, its text is now empty and the selection is the empty range at
  position 0.
\<close>

theorem clear_handler_erases:
  "clear_handler (Ref (Some e)) =
     Ref (Some (e\<lparr>contents := [], selection := Some (0, 0),
                  calls := calls e @ [SetText [], SetSelection 0 0]\<rparr>))
 \<and> (\<exists>e'. clear_handler (Ref (Some e)) = Ref (Some e')
          \<and> contents e' = [] \<and> selection e' = Some (0, 0))"
  by (simp add: clear_handler_def setText_def setSelection_def)

section \<open>The image field and the submit button of the team-member form\<close>

text \<open>
  C7. While the uploading flag is set the submit button is rendered disabled, and
  activating it neither issues a request nor changes the state. The flag is set by
  \<^verbatim>\<open>handleImageChange\<close> before the upload is awaited, so the form rendered during an
  upload has its submit button disabled.
\<close>

theorem submit_disabled_while_uploading:
  assumes "isUploading s"
  shows "submit_disabled (TeamMemberList_form_view s)
       \<and> TeamMemberList_submit_click base srv s = \<lparr>final = s, effects = [], rejection = None\<rparr>
       \<and> isUploading (handleImageChange_begin u)
       \<and> submit_disabled (TeamMemberList_form_view (handleImageChange_begin u))"
  using assms
  by (simp add: TeamMemberList_form_view_def TeamMemberList_submit_click_def
      handleImageChange_begin_def)

theorem submit_disabled_while_uploading_witness:
  "isUploading team_uploading
 \<and> submit_disabled (TeamMemberList_form_view team_uploading)
 \<and> effects (TeamMemberList_submit_click api unreachable team_uploading) = []
 \<and> final (TeamMemberList_submit_click api unreachable team_uploading) = team_uploading"
proof -
  have up: "isUploading team_uploading"
    by (simp add: team_uploading_def handleImageChange_begin_def)
  note run = submit_disabled_while_uploading [OF up, of api unreachable team_creating]
  from run up show ?thesis by simp
qed

section \<open>The request of a form submission\<close>

lemma requests_append: "requests (es @ fs) = requests es @ requests fs"
  by (induction es rule: requests.induct) simp_all

lemma DepartmentList_fetchDepartments_effects:
  "effects (DepartmentList_fetchDepartments base srv s) =
     Fetch (get_request (base @ ''/department'')) #
     (case read_collection srv (get_request (base @ ''/department'')) of
        Inl e \<Rightarrow> [ToastError (JStr ''Failed to load departments'')]
      | Inr d \<Rightarrow> [])"
  by (simp add: DepartmentList_fetchDepartments_def Let_def split: sum.splits)

lemma fetchTeamMembers_effects:
  "effects (fetchTeamMembers base srv s) =
     Fetch (get_request (base @ ''/team'')) #
     (case (case read_collection srv (get_request (base @ ''/team'')) of
              Inl e \<Rightarrow> Inl e
            | Inr grouped \<Rightarrow> flatten_grouped grouped) of
        Inl e \<Rightarrow> [ToastError (JStr ''Failed to load team members'')]
      | Inr flatArray \<Rightarrow> [])"
  by (simp add: fetchTeamMembers_def Let_def split: sum.splits)

lemma DepartmentList_fetchDepartments_requests:
  "requests (effects (DepartmentList_fetchDepartments base srv s)) =
     [get_request (base @ ''/department'')]"
  by (simp add: DepartmentList_fetchDepartments_effects split: sum.splits)

lemma fetchTeamMembers_requests:
  "requests (effects (fetchTeamMembers base srv s)) = [get_request (base @ ''/team'')]"
  by (simp add: fetchTeamMembers_effects split: sum.splits)

lemma DepartmentList_onSubmit_mutating:
  "mutating_requests (effects (DepartmentList_onSubmit base srv data s)) =
     [DepartmentList_submit_request base data s]"
proof -
  have m: "meth (DepartmentList_submit_request base data s) \<noteq> GET"
    by (simp add: DepartmentList_submit_request_def)
  have g: "meth (get_request (base @ ''/department'')) = GET"
    by (simp add: get_request_def)
  show ?thesis
  proof (cases "srv (DepartmentList_submit_request base data s)")
    case NetworkFailure
    with m show ?thesis
      by (simp add: DepartmentList_onSubmit_def mutating_requests_def)
  next
    case (Response ok b)
    with m g show ?thesis
      by (cases b)
        (simp_all add: DepartmentList_onSubmit_def mutating_requests_def Let_def
          DepartmentList_fetchDepartments_requests)
  qed
qed

lemma TeamMemberList_onSubmit_mutating:
  "mutating_requests (effects (TeamMemberList_onSubmit base srv data s)) =
     [TeamMemberList_submit_request base data s]"
proof -
  have m: "meth (TeamMemberList_submit_request base data s) \<noteq> GET"
    by (simp add: TeamMemberList_submit_request_def)
  have g: "meth (get_request (base @ ''/team'')) = GET"
    by (simp add: get_request_def)
  show ?thesis
  proof (cases "srv (TeamMemberList_submit_request base data s)")
    case NetworkFailure
    with m show ?thesis
      by (simp add: TeamMemberList_onSubmit_def mutating_requests_def)
  next
    case (Response ok b)
    with m g show ?thesis
      by (cases b)
        (simp_all add: TeamMemberList_onSubmit_def mutating_requests_def Let_def
          fetchTeamMembers_requests)
  qed
qed

text \<open>
  C4. A submission issues exactly one request that is not a \<^verbatim>\<open>GET\<close>, whatever the
  entered values, the rest of the state and the server's answer. With the edit flag
  unset it is a \<^verbatim>\<open>POST\<close> to the collection root; with the flag set and an identifier
  remembered it is a \<^verbatim>\<open>PATCH\<close> to the root followed by \<^verbatim>\<open>/\<close> and that identifier. The
  same holds for departments (\<^verbatim>\<open>/department\<close>) and team members (\<^verbatim>\<open>/team\<close>).
\<close>

theorem submit_method_and_endpoint:
  "(\<not> isEdit s \<longrightarrow>
      map (\<lambda>rq. (meth rq, url rq))
        (mutating_requests (effects (DepartmentList_onSubmit base srv data s)))
      = [(POST, base @ ''/department'')])
 \<and> (isEdit s \<and> currentDepartmentId s = Some i \<longrightarrow>
      map (\<lambda>rq. (meth rq, url rq))
        (mutating_requests (effects (DepartmentList_onSubmit base srv data s)))
      = [(PATCH, base @ ''/department/'' @ i)])
 \<and> (\<not> isEdit t \<longrightarrow>
      map (\<lambda>rq. (meth rq, url rq))
        (mutating_requests (effects (TeamMemberList_onSubmit base srv' data' t)))
      = [(POST, base @ ''/team'')])
 \<and> (isEdit t \<and> currentMemberId t = Some j \<longrightarrow>
      map (\<lambda>rq. (meth rq, url rq))
        (mutating_requests (effects (TeamMemberList_onSubmit base srv' data' t)))
      = [(PATCH, base @ ''/team/'' @ j)])"
  by (simp add: DepartmentList_onSubmit_mutating TeamMemberList_onSubmit_mutating
      DepartmentList_submit_request_def TeamMemberList_submit_request_def template_def)

theorem submit_method_and_endpoint_witness:
  "\<not> isEdit dept_creating
 \<and> map (\<lambda>rq. (meth rq, url rq))
      (mutating_requests
         (effects (DepartmentList_onSubmit api unreachable
                     \<lparr>df_name = ''Operations'', df_description = Some []\<rparr> dept_creating)))
    = [(POST, api @ ''/department'')]
 \<and> isEdit dept_editing \<and> currentDepartmentId dept_editing = Some ''3''
 \<and> map (\<lambda>rq. (meth rq, url rq))
      (mutating_requests
         (effects (DepartmentList_onSubmit api unreachable
                     \<lparr>df_name = ''Operations'', df_description = Some []\<rparr> dept_editing)))
    = [(PATCH, api @ ''/department/'' @ ''3'')]
 \<and> \<not> isEdit team_creating
 \<and> map (\<lambda>rq. (meth rq, url rq))
      (mutating_requests
         (effects (TeamMemberList_onSubmit api unreachable member_form_filled team_creating)))
    = [(POST, api @ ''/team'')]
 \<and> isEdit team_editing \<and> currentMemberId team_editing = Some ''7''
 \<and> map (\<lambda>rq. (meth rq, url rq))
      (mutating_requests
         (effects (TeamMemberList_onSubmit api unreachable member_form_filled team_editing)))
    = [(PATCH, api @ ''/team/'' @ ''7'')]"
proof -
  have dc: "\<not> isEdit dept_creating"
    by (simp add: dept_creating_def DepartmentList_openCreateDialog_def)
  have de: "isEdit dept_editing \<and> currentDepartmentId dept_editing = Some ''3''"
    by (simp add: dept_editing_def DepartmentList_openEditDialog_def engineering_def)
  have tc: "\<not> isEdit team_creating"
    by (simp add: team_creating_def TeamMemberList_openCreateDialog_def)
  have te: "isEdit team_editing \<and> currentMemberId team_editing = Some ''7''"
    by (simp add: team_editing_def TeamMemberList_openEditDialog_def asha_def)
  note create =
    submit_method_and_endpoint [of dept_creating api unreachable
      "\<lparr>df_name = ''Operations'', df_description = Some []\<rparr>" "''3''"
      team_creating unreachable member_form_filled "''7''"]
  note edit =
    submit_method_and_endpoint [of dept_editing api unreachable
      "\<lparr>df_name = ''Operations'', df_description = Some []\<rparr>" "''3''"
      team_editing unreachable member_form_filled "''7''"]
  from create edit dc de tc te show ?thesis by simp
qed

text \<open>
  C6. The body of the request a team-member submission sends is the payload object, and
  the payload has the key \<^verbatim>\<open>image\<close> exactly when an image reference is stored that is
  not the empty string; its value is then that reference. With no reference stored (or
  the empty one) the payload has the four form fields and no \<^verbatim>\<open>image\<close> key at all.
\<close>

theorem payload_image_iff_link:
  "map body (mutating_requests (effects (TeamMemberList_onSubmit base srv data s)))
     = [Some (JObj (TeamMemberList_payload data (memberImageLink s)))]
 \<and> ((''image'' \<in> set (map fst (TeamMemberList_payload data (memberImageLink s))))
      = (\<exists>l. memberImageLink s = Some l \<and> l \<noteq> []))
 \<and> (memberImageLink s = Some l \<and> l \<noteq> [] \<longrightarrow>
      map_of (TeamMemberList_payload data (memberImageLink s)) ''image'' = Some (JStr l))
 \<and> (memberImageLink s = None \<or> memberImageLink s = Some [] \<longrightarrow>
      map fst (TeamMemberList_payload data (memberImageLink s))
        = [''name'', ''designation'', ''about'', ''departmentId'']
      \<and> map_of (TeamMemberList_payload data (memberImageLink s)) ''image'' = None)"
proof (cases "memberImageLink s")
  case None
  then show ?thesis
    by (simp add: TeamMemberList_onSubmit_mutating TeamMemberList_submit_request_def
        TeamMemberList_payload_def)
next
  case (Some r)
  then show ?thesis
    by (cases "r = []")
      (simp_all add: TeamMemberList_onSubmit_mutating TeamMemberList_submit_request_def
        TeamMemberList_payload_def)
qed

theorem payload_image_iff_link_witness:
  "memberImageLink team_creating_with_image = Some ''team/asha.png''
 \<and> map_of (TeamMemberList_payload member_form_filled (memberImageLink team_creating_with_image))
      ''image'' = Some (JStr ''team/asha.png'')
 \<and> map body
      (mutating_requests
         (effects (TeamMemberList_onSubmit api unreachable member_form_filled
                     team_creating_with_image)))
    = [Some (JObj (TeamMemberList_payload member_form_filled (Some ''team/asha.png'')))]
 \<and> memberImageLink team_creating = None
 \<and> map fst (TeamMemberList_payload member_form_filled (memberImageLink team_creating))
    = [''name'', ''designation'', ''about'', ''departmentId'']
 \<and> ''image'' \<notin> set (map fst (TeamMemberList_payload member_form_filled
                                 (memberImageLink team_creating)))"
proof -
  have w: "memberImageLink team_creating_with_image = Some ''team/asha.png''"
    by (simp add: team_creating_with_image_def handleImageChange_end_def)
  have n: "memberImageLink team_creating = None"
    by (simp add: team_creating_def TeamMemberList_openCreateDialog_def)
  note with_image =
    payload_image_iff_link [of api unreachable member_form_filled team_creating_with_image
      "''team/asha.png''"]
  note without =
    payload_image_iff_link [of api unreachable member_form_filled team_creating
      "''team/asha.png''"]
  have a: "map_of (TeamMemberList_payload member_form_filled
                     (memberImageLink team_creating_with_image)) ''image''
           = Some (JStr ''team/asha.png'')"
    using with_image w by simp
  have b: "map body
             (mutating_requests
                (effects (TeamMemberList_onSubmit api unreachable member_form_filled
                            team_creating_with_image)))
           = [Some (JObj (TeamMemberList_payload member_form_filled (Some ''team/asha.png'')))]"
    using with_image w by simp
  have c: "map fst (TeamMemberList_payload member_form_filled (memberImageLink team_creating))
           = [''name'', ''designation'', ''about'', ''departmentId'']"
    using without n by simp
  have d: "''image'' \<notin> set (map fst (TeamMemberList_payload member_form_filled
                                        (memberImageLink team_creating)))"
    using without n by simp
  from w n a b c d show ?thesis by simp
qed

section \<open>List fetches\<close>

lemma read_collection_fails:
  "fetch_fails (srv rq) \<Longrightarrow> \<exists>e. read_collection srv rq = Inl e"
  by (cases "srv rq") (auto simp: fetch_fails_def read_collection_def)

text \<open>
  C5. When a list fetch fails (\<^verbatim>\<open>fetch\<close> rejects, the status is not OK, or the body does
  not parse) the list held in the state stays what it was and the only notification is
  the error \<^verbatim>\<open>Failed to load departments\<close>, or \<^verbatim>\<open>Failed to load team members\<close> for
  the team list. Nothing else of the state changes but the loading flag, which is cleared
  by the two fetches that set it.
\<close>

theorem failed_list_fetch_keeps_list:
  assumes "fetch_fails (srv (get_request (base @ ''/department'')))"
      and "fetch_fails (srv' (get_request (base @ ''/team'')))"
  shows "DepartmentList_fetchDepartments base srv s =
           \<lparr>final = s\<lparr>loading := False\<rparr>,
            effects = [Fetch (get_request (base @ ''/department'')),
                       ToastError (JStr ''Failed to load departments'')],
            rejection = None\<rparr>
       \<and> departments (final (DepartmentList_fetchDepartments base srv s)) = departments s
       \<and> TeamMemberList_fetchDepartments base srv t =
           \<lparr>final = t,
            effects = [Fetch (get_request (base @ ''/department'')),
                       ToastError (JStr ''Failed to load departments'')],
            rejection = None\<rparr>
       \<and> fetchTeamMembers base srv' t =
           \<lparr>final = t\<lparr>loading := False\<rparr>,
            effects = [Fetch (get_request (base @ ''/team'')),
                       ToastError (JStr ''Failed to load team members'')],
            rejection = None\<rparr>
       \<and> teamMembers (final (fetchTeamMembers base srv' t)) = teamMembers t
       \<and> departments (final (fetchTeamMembers base srv' t)) = departments t"
proof -
  from assms(1) obtain e where d: "read_collection srv (get_request (base @ ''/department'')) = Inl e"
    using read_collection_fails by blast
  from assms(2) obtain e' where m: "read_collection srv' (get_request (base @ ''/team'')) = Inl e'"
    using read_collection_fails by blast
  from d have 1: "DepartmentList_fetchDepartments base srv s =
           \<lparr>final = s\<lparr>loading := False\<rparr>,
            effects = [Fetch (get_request (base @ ''/department'')),
                       ToastError (JStr ''Failed to load departments'')],
            rejection = None\<rparr>"
    by (simp add: DepartmentList_fetchDepartments_def Let_def)
  from d have 2: "TeamMemberList_fetchDepartments base srv t =
           \<lparr>final = t,
            effects = [Fetch (get_request (base @ ''/department'')),
                       ToastError (JStr ''Failed to load departments'')],
            rejection = None\<rparr>"
    by (simp add: TeamMemberList_fetchDepartments_def Let_def)
  from m have 3: "fetchTeamMembers base srv' t =
           \<lparr>final = t\<lparr>loading := False\<rparr>,
            effects = [Fetch (get_request (base @ ''/team'')),
                       ToastError (JStr ''Failed to load team members'')],
            rejection = None\<rparr>"
    by (simp add: fetchTeamMembers_def Let_def)
  from 1 2 3 show ?thesis by simp
qed

theorem failed_list_fetch_keeps_list_witness:
  "fetch_fails (server_error (get_request (api @ ''/department'')))
 \<and> fetch_fails (garbled (get_request (api @ ''/team'')))
 \<and> departments (final (DepartmentList_fetchDepartments api server_error dept_listed))
     = one_department
 \<and> effects (DepartmentList_fetchDepartments api server_error dept_listed)
     = [Fetch (get_request (api @ ''/department'')),
        ToastError (JStr ''Failed to load departments'')]
 \<and> final (TeamMemberList_fetchDepartments api server_error team_listed) = team_listed
 \<and> teamMembers (final (fetchTeamMembers api garbled team_listed)) = one_member
 \<and> effects (fetchTeamMembers api garbled team_listed)
     = [Fetch (get_request (api @ ''/team'')),
        ToastError (JStr ''Failed to load team members'')]"
proof -
  have f: "fetch_fails (server_error (get_request (api @ ''/department'')))"
    by (simp add: fetch_fails_def server_error_def)
  have g: "fetch_fails (garbled (get_request (api @ ''/team'')))"
    by (simp add: fetch_fails_def garbled_def)
  have dl: "departments dept_listed = one_department"
    by (simp add: dept_listed_def)
  have tl: "teamMembers team_listed = one_member"
    by (simp add: team_listed_def)
  note run =
    failed_list_fetch_keeps_list
      [where srv = server_error and srv' = garbled and base = api
         and s = dept_listed and t = team_listed, OF f g]
  from run f g dl tl show ?thesis by simp
qed

section \<open>Flattening the grouped team list\<close>

lemma element_grouped:
  assumes "distinct (map fst groups)" and "g \<in> set groups"
  shows "element (grouped_response groups) (Name (fst g)) = JArr (snd g)"
proof -
  have "distinct (map fst (map (\<lambda>g. (fst g, JArr (snd g))) groups))"
    using assms(1) by (simp add: comp_def)
  moreover have "(fst g, JArr (snd g)) \<in> set (map (\<lambda>g. (fst g, JArr (snd g))) groups)"
    using assms(2) by auto
  ultimately have
    "map_of (map (\<lambda>g. (fst g, JArr (snd g))) groups) (fst g) = Some (JArr (snd g))"
    by (rule map_of_is_SomeI)
  then show ?thesis by (simp add: grouped_response_def)
qed

text \<open>The loop, started anywhere in the key list with anything pushed so far, appends the
  remaining groups in order.\<close>

lemma push_groups_grouped:
  assumes "distinct (map fst groups)"
  shows "set gs \<subseteq> set groups \<Longrightarrow>
         push_groups (grouped_response groups) (map (\<lambda>g. Name (fst g)) gs) flatArray
           = Inr (flatArray @ concat (map snd gs))"
proof (induction gs arbitrary: flatArray)
  case Nil
  then show ?case by simp
next
  case (Cons g gs)
  then have "g \<in> set groups" and "set gs \<subseteq> set groups" by auto
  with Cons.IH assms show ?case
    by (simp add: element_grouped)
qed

lemma flatten_grouped_response:
  assumes "distinct (map fst groups)"
  shows "flatten_grouped (grouped_response groups) = Inr (concat (map snd groups))"
proof -
  have "object_keys (grouped_response groups) = Inr (map (\<lambda>g. Name (fst g)) groups)"
    by (simp add: grouped_response_def comp_def)
  then show ?thesis
    using push_groups_grouped [OF assms, of groups "[]"]
    by (simp add: flatten_grouped_def)
qed

lemma distinct_count_list_one:
  "distinct xs \<Longrightarrow> m \<in> set xs \<Longrightarrow> count_list xs m = 1"
  by (induction xs) (auto simp: count_list_0_iff)

text \<open>
  C1. Let the server answer \<^verbatim>\<open>GET /team\<close> with status OK and a body whose \<^verbatim>\<open>data\<close> is
  an object that maps department identifiers (pairwise different, as the keys of an
  object are) to arrays of members, listed here in the order of \<^verbatim>\<open>Object.keys\<close>. Then
  the flat list \<^verbatim>\<open>fetchTeamMembers\<close> stores is the concatenation of the groups in that
  order, each group in the order received. So every member is in the flat list as many
  times as it is in all the groups together; when no member is listed twice (the groups
  are disjoint and none repeats a member) every member of every group is there exactly
  once. Nothing is assumed about which member is in which group.
\<close>

theorem flatten_keeps_every_member:
  assumes "distinct (map fst groups)"
      and "srv (get_request (base @ ''/team'')) = Response True (Some reply)"
      and "get_member ''data'' reply = Inr (grouped_response groups)"
  shows "\<exists>flat. flatten_grouped (grouped_response groups) = Inr flat
             \<and> teamMembers (final (fetchTeamMembers base srv s)) = JArr flat
             \<and> toasts (effects (fetchTeamMembers base srv s)) = []
             \<and> flat = concat (map snd groups)
             \<and> (\<forall>m. count_list flat m = (\<Sum>g\<leftarrow>groups. count_list (snd g) m))
             \<and> (distinct (concat (map snd groups)) \<longrightarrow>
                  (\<forall>g \<in> set groups. \<forall>m \<in> set (snd g). count_list flat m = 1))"
proof -
  let ?flat = "concat (map snd groups)"
  have fl: "flatten_grouped (grouped_response groups) = Inr ?flat"
    using assms(1) by (rule flatten_grouped_response)
  have rd: "read_collection srv (get_request (base @ ''/team'')) = Inr (grouped_response groups)"
    using assms(2,3) by (simp add: read_collection_def)
  have st: "teamMembers (final (fetchTeamMembers base srv s)) = JArr ?flat"
    using fl rd by (simp add: fetchTeamMembers_def Let_def)
  have ts: "toasts (effects (fetchTeamMembers base srv s)) = []"
    using fl rd by (simp add: fetchTeamMembers_def Let_def toasts_def is_toast_def)
  have cnt: "\<forall>m. count_list ?flat m = (\<Sum>g\<leftarrow>groups. count_list (snd g) m)"
    by (simp add: count_list_concat comp_def)
  have once: "distinct ?flat \<longrightarrow> (\<forall>g \<in> set groups. \<forall>m \<in> set (snd g). count_list ?flat m = 1)"
  proof (intro impI ballI)
    fix g m
    assume d: "distinct ?flat" and g: "g \<in> set groups" and m: "m \<in> set (snd g)"
    from g m have "m \<in> set ?flat" by auto
    with d show "count_list ?flat m = 1" by (rule distinct_count_list_one)
  qed
  from fl st ts cnt once show ?thesis by blast
qed

theorem flatten_keeps_every_member_witness:
  "distinct (map fst two_groups)
 \<and> team_server (get_request (api @ ''/team'')) = Response True (Some team_reply)
 \<and> get_member ''data'' team_reply = Inr (grouped_response two_groups)
 \<and> distinct (concat (map snd two_groups))
 \<and> flatten_grouped (grouped_response two_groups) = Inr [member_a, member_b, member_c]
 \<and> teamMembers (final (fetchTeamMembers api team_server TeamMemberList_init))
     = JArr [member_a, member_b, member_c]
 \<and> count_list [member_a, member_b, member_c] member_c = 1"
proof -
  have k: "distinct (map fst two_groups)"
    by (simp add: two_groups_def)
  have r: "team_server (get_request (api @ ''/team'')) = Response True (Some team_reply)"
    by (simp add: team_server_def)
  have d: "get_member ''data'' team_reply = Inr (grouped_response two_groups)"
    by (simp add: team_reply_def)
  have c: "concat (map snd two_groups) = [member_a, member_b, member_c]"
    by (simp add: two_groups_def)
  have dm: "distinct (concat (map snd two_groups))"
    by (simp add: two_groups_def member_a_def member_b_def member_c_def)
  have g: "(''5'', [member_c]) \<in> set two_groups"
    by (simp add: two_groups_def)
  from flatten_keeps_every_member
         [where groups = two_groups and srv = team_server and base = api
            and reply = team_reply and s = TeamMemberList_init, OF k r d]
  obtain flat where
    f1: "flatten_grouped (grouped_response two_groups) = Inr flat" and
    f2: "teamMembers (final (fetchTeamMembers api team_server TeamMemberList_init)) = JArr flat" and
    f3: "flat = concat (map snd two_groups)" and
    f4: "distinct (concat (map snd two_groups)) \<longrightarrow>
           (\<forall>g \<in> set two_groups. \<forall>m \<in> set (snd g). count_list flat m = 1)"
    by blast
  from f4 dm g have "count_list flat member_c = 1" by fastforce
  with f1 f2 f3 c k r d dm show ?thesis by simp
qed

section \<open>Confirmed deletes and transport failures\<close>

lemma deleteDepartment_json_reply:
  assumes "srv (delete_request (base @ ''/department/'' @ ident)) = Response ok (Some reply)"
  shows "deleteDepartment base srv ident s =
           (if ok then
              \<lparr>final = final (DepartmentList_fetchDepartments base srv s),
               effects =
                 [Fetch (delete_request (base @ ''/department/'' @ ident)),
                  ToastSuccess (or_else (opt_member ''message'' reply)
                                        (JStr ''Department deleted!''))]
                 @ effects (DepartmentList_fetchDepartments base srv s),
               rejection = None\<rparr>
            else
              \<lparr>final = s,
               effects =
                 [Fetch (delete_request (base @ ''/department/'' @ ident)),
                  ToastError (or_else (opt_member ''message'' reply) (JStr ''Delete failed''))],
               rejection = None\<rparr>)"
  using assms by (simp add: deleteDepartment_def Let_def)

text \<open>
  The two branches of \<^verbatim>\<open>deleteDepartment\<close> after \<^verbatim>\<open>res.json()\<close> has returned. A
  delete is confirmed on a recorded identifier, and the server's answer to the
  \<^verbatim>\<open>DELETE\<close> has a body that parses as JSON. With status OK the effects are, in this
  order: the \<^verbatim>\<open>DELETE\<close>, a success notification whose text is the body's \<^verbatim>\<open>message\<close>
  when that is truthy (else \<^verbatim>\<open>Department deleted!\<close>), and the \<^verbatim>\<open>GET\<close> of the list (whose
  own failure adds its error notification). With another status the effects are the
  \<^verbatim>\<open>DELETE\<close> and an error notification whose text is the body's \<^verbatim>\<open>message\<close> when that
  is truthy (else \<^verbatim>\<open>Delete failed\<close>); nothing is fetched again and the list stays. The
  dialog closes either way.
\<close>

lemma confirmed_delete_json_reply:
  assumes "currentDepartmentId s = Some ident" and "ident \<noteq> []"
      and "srv (delete_request (base @ ''/department/'' @ ident)) = Response ok (Some reply)"
  shows "(ok \<longrightarrow>
           effects (DepartmentList_delete_Delete_onClick base srv s) =
             [Fetch (delete_request (base @ ''/department/'' @ ident)),
              ToastSuccess (if truthy (opt_member ''message'' reply)
                            then opt_member ''message'' reply
                            else JStr ''Department deleted!''),
              Fetch (get_request (base @ ''/department''))]
             @ (case read_collection srv (get_request (base @ ''/department'')) of
                  Inl e \<Rightarrow> [ToastError (JStr ''Failed to load departments'')]
                | Inr d \<Rightarrow> []))
       \<and> (\<not> ok \<longrightarrow>
           effects (DepartmentList_delete_Delete_onClick base srv s) =
             [Fetch (delete_request (base @ ''/department/'' @ ident)),
              ToastError (if truthy (opt_member ''message'' reply)
                          then opt_member ''message'' reply
                          else JStr ''Delete failed'')]
           \<and> departments (final (DepartmentList_delete_Delete_onClick base srv s))
               = departments s)
       \<and> \<not> isDeleteDialogOpen (final (DepartmentList_delete_Delete_onClick base srv s))
       \<and> rejection (DepartmentList_delete_Delete_onClick base srv s) = None"
proof (cases ok)
  case True
  with assms show ?thesis
    by (simp add: DepartmentList_delete_Delete_onClick_def deleteDepartment_json_reply
        DepartmentList_fetchDepartments_effects or_else_def)
next
  case False
  with assms show ?thesis
    by (simp add: DepartmentList_delete_Delete_onClick_def deleteDepartment_json_reply
        or_else_def)
qed

lemma confirmed_delete_json_reply_example:
  "currentDepartmentId dept_delete_pending = Some ''3''
 \<and> deleting_server (delete_request (api @ ''/department/'' @ ''3''))
     = Response True (Some (JObj [(''message'', JStr ''Department removed'')]))
 \<and> effects (DepartmentList_delete_Delete_onClick api deleting_server dept_delete_pending)
     = [Fetch (delete_request (api @ ''/department/'' @ ''3'')),
        ToastSuccess (JStr ''Department removed''),
        Fetch (get_request (api @ ''/department''))]
 \<and> server_error (delete_request (api @ ''/department/'' @ ''3''))
     = Response False (Some (JObj [(''message'', JStr ''Internal error'')]))
 \<and> effects (DepartmentList_delete_Delete_onClick api server_error dept_delete_pending)
     = [Fetch (delete_request (api @ ''/department/'' @ ''3'')),
        ToastError (JStr ''Internal error'')]"
proof -
  have i: "currentDepartmentId dept_delete_pending = Some ''3''"
    by (simp add: dept_delete_pending_def DepartmentList_row_delete_onClick_def)
  have n: "''3'' \<noteq> []" by simp
  have a: "deleting_server (delete_request (api @ ''/department/'' @ ''3''))
           = Response True (Some (JObj [(''message'', JStr ''Department removed'')]))"
    by (simp add: deleting_server_def delete_request_def)
  have b: "server_error (delete_request (api @ ''/department/'' @ ''3''))
           = Response False (Some (JObj [(''message'', JStr ''Internal error'')]))"
    by (simp add: server_error_def)
  have g: "read_collection deleting_server (get_request (api @ ''/department'')) = Inr (JArr [])"
    by (simp add: read_collection_def deleting_server_def get_request_def)
  note good =
    confirmed_delete_json_reply
      [where s = dept_delete_pending and srv = deleting_server and base = api, OF i n a]
  note bad =
    confirmed_delete_json_reply
      [where s = dept_delete_pending and srv = server_error and base = api, OF i n b]
  have c: "effects (DepartmentList_delete_Delete_onClick api deleting_server dept_delete_pending)
           = [Fetch (delete_request (api @ ''/department/'' @ ''3'')),
              ToastSuccess (JStr ''Department removed''),
              Fetch (get_request (api @ ''/department''))]"
    using good g by (simp add: opt_member_def)
  have d: "effects (DepartmentList_delete_Delete_onClick api server_error dept_delete_pending)
           = [Fetch (delete_request (api @ ''/department/'' @ ''3'')),
              ToastError (JStr ''Internal error'')]"
    using bad by (simp add: opt_member_def)
  from i a b c d show ?thesis by simp
qed

text \<open>
  C8. What the code does at a confirmed delete whose answer has no body that parses. The
  server answers the \<^verbatim>\<open>DELETE\<close> of department 3 with status OK and a body that is
  not JSON (an empty body, say): \<^verbatim>\<open>res.json()\<close> is awaited before \<^verbatim>\<open>res.ok\<close> is
  looked at and nothing catches its rejection, so the \<^verbatim>\<open>DELETE\<close> is the only effect.
  No success notification is shown and the list is not fetched again, although the
  delete succeeded. When \<^verbatim>\<open>fetch\<close> itself rejects, the request is again the only
  effect: the failed delete shows no error notification.
\<close>

theorem confirmed_delete_without_json_reply:
  "currentDepartmentId dept_delete_pending = Some ''3''
 \<and> garbled (delete_request (api @ ''/department/'' @ ''3'')) = Response True None
 \<and> effects (DepartmentList_delete_Delete_onClick api garbled dept_delete_pending)
     = [Fetch (delete_request (api @ ''/department/'' @ ''3''))]
 \<and> get_request (api @ ''/department'')
     \<notin> set (requests (effects
           (DepartmentList_delete_Delete_onClick api garbled dept_delete_pending)))
 \<and> toasts (effects (DepartmentList_delete_Delete_onClick api garbled dept_delete_pending)) = []
 \<and> rejection (DepartmentList_delete_Delete_onClick api garbled dept_delete_pending)
     = Some SyntaxError
 \<and> unreachable (delete_request (api @ ''/department/'' @ ''3'')) = NetworkFailure
 \<and> effects (DepartmentList_delete_Delete_onClick api unreachable dept_delete_pending)
     = [Fetch (delete_request (api @ ''/department/'' @ ''3''))]
 \<and> toasts (effects (DepartmentList_delete_Delete_onClick api unreachable dept_delete_pending))
     = []
 \<and> rejection (DepartmentList_delete_Delete_onClick api unreachable dept_delete_pending)
     = Some FetchRejected"
  by (simp add: dept_delete_pending_def DepartmentList_row_delete_onClick_def
      DepartmentList_init_def garbled_def unreachable_def
      DepartmentList_delete_Delete_onClick_def deleteDepartment_def Let_def toasts_def
      is_toast_def delete_request_def get_request_def)

text \<open>
  C2. What the code does on a transport failure of a mutating request. A create
  submission while \<^verbatim>\<open>fetch\<close> rejects, and a delete answered with a status that is not OK
  and a body that does not parse: the request is the only effect, no notification of any
  kind is shown, and the handler's promise rejects with nobody to catch it.
\<close>

theorem transport_failure_shows_no_notification:
  "effects (DepartmentList_onSubmit api unreachable
              \<lparr>df_name = ''Operations'', df_description = Some []\<rparr> dept_creating)
     = [Fetch (DepartmentList_submit_request api
                 \<lparr>df_name = ''Operations'', df_description = Some []\<rparr> dept_creating)]
 \<and> toasts (effects (DepartmentList_onSubmit api unreachable
                      \<lparr>df_name = ''Operations'', df_description = Some []\<rparr> dept_creating))
     = []
 \<and> rejection (DepartmentList_onSubmit api unreachable
                 \<lparr>df_name = ''Operations'', df_description = Some []\<rparr> dept_creating)
     = Some FetchRejected
 \<and> effects (TeamMemberList_onSubmit api bad_gateway member_form_filled team_editing)
     = [Fetch (TeamMemberList_submit_request api member_form_filled team_editing)]
 \<and> rejection (TeamMemberList_onSubmit api bad_gateway member_form_filled team_editing)
     = Some SyntaxError
 \<and> effects (deleteDepartment api bad_gateway ''3'' dept_listed)
     = [Fetch (delete_request (api @ ''/department/'' @ ''3''))]
 \<and> toasts (effects (deleteDepartment api bad_gateway ''3'' dept_listed)) = []
 \<and> rejection (deleteDepartment api bad_gateway ''3'' dept_listed) = Some SyntaxError
 \<and> effects (deleteTeamMember api unreachable ''7'' team_listed)
     = [Fetch (delete_request (api @ ''/team/'' @ ''7''))]
 \<and> rejection (deleteTeamMember api unreachable ''7'' team_listed) = Some FetchRejected"
  by (simp add: DepartmentList_onSubmit_def TeamMemberList_onSubmit_def deleteDepartment_def
      deleteTeamMember_def unreachable_def bad_gateway_def Let_def toasts_def is_toast_def)

end
